theory Spec2Isabelle
  imports Main "HOL-Library.Word"
begin

section \<open>sounds.h: the placeholder sound and its accessor\<close>

subsection \<open>Data\<close>

text \<open>
  The elements of \<^verbatim>\<open>std::vector<uint8_t>\<close> are 8-bit unsigned integers, and a
  \<^verbatim>\<open>std::string\<close> is a sequence of 8-bit characters of any length, the NUL
  character included: \<^typ>\<open>string\<close>.
\<close>

type_synonym uint8_t = "8 word"

text \<open>
  The vector objects of a program: the one with static storage duration that the header
  declares, \<^verbatim>\<open>ding_dong_raw\<close>, and those with dynamic storage duration, which a
  program constructs while it runs (numbered in the order of their construction). A value
  of type \<^verbatim>\<open>const std::vector<uint8_t>*\<close> is the null pointer or the address of
  such an object.
\<close>

datatype object = ding_dong_raw_object | constructed nat

datatype pointer = nullptr | address_of object

text \<open>
  The memory holds the contents of the objects that are alive; an object that was never
  constructed has none. Reading through the null pointer yields nothing.
\<close>

type_synonym memory = "object \<rightharpoonup> uint8_t list"

fun load :: "memory \<Rightarrow> pointer \<Rightarrow> uint8_t list option" where
  "load mem nullptr = None"
| "load mem (address_of obj) = mem obj"

text \<open>
  \<^verbatim>\<open>static const std::vector<uint8_t> ding_dong_raw = { 0x00, 0x00, 0x00, 0x00 };\<close>
  The initialiser, and the memory once the static objects of the header are initialised.
\<close>

definition ding_dong_raw :: "uint8_t list" where
  "ding_dong_raw = [0x00, 0x00, 0x00, 0x00]"

definition static_init :: memory where
  "static_init = Map.empty(ding_dong_raw_object \<mapsto> ding_dong_raw)"

subsection \<open>The accessor\<close>

text \<open>
  A call of a C++ function returns a value, or it is left by an exception, or it ends the
  program. The outcome of a call is a sum: \<open>Inr\<close> the returned value, \<open>Inl\<close> the
  failure. The memory is passed through the call and handed back.

  \<^verbatim>\<open>
  static const std::vector<uint8_t>* get_sound(const std::string& name) {
      if (name == "ding_dong") return &ding_dong_raw;
      return nullptr;
  }
  \<close>
  The comparison \<^verbatim>\<open>name == "ding_dong"\<close> of a \<^verbatim>\<open>std::string\<close> with a string
  literal holds when both have the same length and the same characters, which is the
  equality of \<^typ>\<open>string\<close>. The body has two return statements, no throw
  expression and no assignment.
\<close>

datatype failure = Exception | Abort

definition get_sound :: "string \<Rightarrow> memory \<Rightarrow> (failure + pointer) \<times> memory" where
  "get_sound name mem =
     (if name = ''ding_dong'' then (Inr (address_of ding_dong_raw_object), mem)
      else (Inr nullptr, mem))"

subsection \<open>Callers\<close>

text \<open>
  The bytes a caller reads through the outcome of a call: those the returned pointer
  refers to, and nothing when the pointer is null or no pointer was returned.
\<close>

fun observed :: "memory \<Rightarrow> failure + pointer \<Rightarrow> uint8_t list option" where
  "observed mem (Inl e) = None"
| "observed mem (Inr p) = load mem p"

text \<open>
  A caller that looks up one name after the other, each call starting in the memory the
  call before it left. It collects the outcomes in the order of the calls.
\<close>

fun lookups :: "string list \<Rightarrow> memory \<Rightarrow> (failure + pointer) list \<times> memory" where
  "lookups [] mem = ([], mem)"
| "lookups (name # names) mem =
     (case get_sound name mem of
        (r, mem') \<Rightarrow> (case lookups names mem' of (rs, mem'') \<Rightarrow> (r # rs, mem'')))"

text \<open>
  The registry as callers see it in a given memory: the partial map that sends a name to
  the bytes read through the outcome of its lookup.
\<close>

definition registry :: "memory \<Rightarrow> (string \<rightharpoonup> uint8_t list)" where
  "registry mem name = (case get_sound name mem of (r, mem') \<Rightarrow> observed mem' r)"

section \<open>Properties\<close>

subsection \<open>Auxiliary facts\<close>

lemma get_sound_memory: "snd (get_sound name mem) = mem"
  by (simp add: get_sound_def)

lemma lookups_memory: "snd (lookups names mem) = mem"
proof (induction names arbitrary: mem)
  case Nil
  show ?case by simp
next
  case (Cons name names)
  obtain r mem' where step: "get_sound name mem = (r, mem')"
    by (cases "get_sound name mem")
  with get_sound_memory [of name mem] have same: "mem' = mem"
    by simp
  obtain rs mem'' where rest: "lookups names mem' = (rs, mem'')"
    by (cases "lookups names mem'")
  with Cons.IH [of mem'] have "mem'' = mem'"
    by simp
  with step rest same show ?case
    by simp
qed

lemma load_static_init:
  "load static_init (address_of ding_dong_raw_object) = Some ding_dong_raw"
  by (simp add: static_init_def)

lemma registry_static_init: "registry static_init = [''ding_dong'' \<mapsto> ding_dong_raw]"
  by (rule ext) (simp add: registry_def get_sound_def static_init_def)

lemma get_sound_returns: "\<exists>p. get_sound name mem = (Inr p, mem)"
  by (simp add: get_sound_def)

text \<open>The outcome of a call does not depend on the memory it starts in.\<close>

lemma get_sound_outcome: "fst (get_sound name mem) = fst (get_sound name mem')"
  by (simp add: get_sound_def)

text \<open>
  Hence the outcomes of a run of calls are those of the single calls, whatever was
  looked up before.
\<close>

lemma lookups_outcomes:
  "fst (lookups names mem) = map (\<lambda>name. fst (get_sound name mem')) names"
proof (induction names arbitrary: mem)
  case Nil
  show ?case by simp
next
  case (Cons name names)
  have "fst (lookups (name # names) mem)
      = fst (get_sound name mem) # fst (lookups names (snd (get_sound name mem)))"
    by (simp split: prod.splits)
  also have "fst (get_sound name mem) = fst (get_sound name mem')"
    by (rule get_sound_outcome)
  also have "fst (lookups names (snd (get_sound name mem)))
      = map (\<lambda>name. fst (get_sound name mem')) names"
    by (rule Cons.IH)
  finally show ?case by simp
qed

subsection \<open>The known name\<close>

text \<open>
  Claim C1. A call of \<open>get_sound\<close> with the name \<open>ding_dong\<close>, at any point of a run
  that has looked up any names before, returns a pointer that is not null, and the bytes
  read through it are the four zero bytes \<open>0x00, 0x00, 0x00, 0x00\<close>, of length 4.
\<close>

theorem get_sound_ding_dong:
  "fst (get_sound ''ding_dong'' (snd (lookups earlier static_init)))
      = Inr (address_of ding_dong_raw_object)
    \<and> address_of ding_dong_raw_object \<noteq> nullptr
    \<and> registry (snd (lookups earlier static_init)) ''ding_dong''
      = Some [0x00, 0x00, 0x00, 0x00]
    \<and> map_option length (registry (snd (lookups earlier static_init)) ''ding_dong'')
      = Some 4"
proof -
  have mem: "snd (lookups earlier static_init) = static_init"
    by (rule lookups_memory)
  have call: "get_sound ''ding_dong'' static_init
      = (Inr (address_of ding_dong_raw_object), static_init)"
    by (simp add: get_sound_def)
  have bytes: "load static_init (address_of ding_dong_raw_object)
      = Some [0x00, 0x00, 0x00, 0x00]"
    by (simp add: static_init_def ding_dong_raw_def)
  from call bytes show ?thesis
    unfolding mem by (simp add: registry_def)
qed

subsection \<open>Every other name\<close>

text \<open>
  Claim C2. For every string other than \<open>ding_dong\<close> the call returns the null pointer,
  so the registry has no entry for it. The comparison is of the whole string and
  distinguishes case: the empty string, \<open>DING_DONG\<close>, \<open>Ding_Dong\<close>, the prefix \<open>ding\<close>
  and the key followed by a NUL character are all answered with the null pointer.
\<close>

theorem get_sound_other_name:
  "name \<noteq> ''ding_dong'' \<Longrightarrow>
    get_sound name mem = (Inr nullptr, mem) \<and> registry mem name = None"
  by (simp add: get_sound_def registry_def)

theorem get_sound_other_name_witness:
  "get_sound '''' static_init = (Inr nullptr, static_init)
    \<and> get_sound ''DING_DONG'' static_init = (Inr nullptr, static_init)
    \<and> get_sound ''Ding_Dong'' static_init = (Inr nullptr, static_init)
    \<and> get_sound ''ding'' static_init = (Inr nullptr, static_init)
    \<and> get_sound (''ding_dong'' @ [CHR 0x00]) static_init = (Inr nullptr, static_init)
    \<and> registry static_init '''' = None"
proof -
  have empty: "'''' \<noteq> ''ding_dong''" by simp
  have upper: "''DING_DONG'' \<noteq> ''ding_dong''" by simp
  have mixed: "''Ding_Dong'' \<noteq> ''ding_dong''" by simp
  have part: "''ding'' \<noteq> ''ding_dong''" by simp
  have nul: "''ding_dong'' @ [CHR 0x00] \<noteq> ''ding_dong''" by simp
  from get_sound_other_name [OF empty, of static_init]
    get_sound_other_name [OF upper, of static_init]
    get_sound_other_name [OF mixed, of static_init]
    get_sound_other_name [OF part, of static_init]
    get_sound_other_name [OF nul, of static_init]
  show ?thesis by simp
qed

subsection \<open>The registry is never changed\<close>

text \<open>
  Claim C3. Any run of lookups, with known and unknown names in any order, leaves the
  memory as it found it. Started after static initialisation, it leaves the registry
  equal to the initial one: its key set is still the single key \<open>ding_dong\<close>, and the
  bytes stored under that key are still those of the initialiser.
\<close>

theorem registry_fixed:
  "snd (lookups names mem) = mem
    \<and> registry (snd (lookups names static_init)) = registry static_init
    \<and> dom (registry (snd (lookups names static_init))) = {''ding_dong''}
    \<and> registry (snd (lookups names static_init)) ''ding_dong'' = Some ding_dong_raw"
proof -
  have frame: "snd (lookups names mem) = mem" for mem
    by (rule lookups_memory)
  have "dom (registry static_init) = {''ding_dong''}"
    unfolding registry_static_init by simp
  moreover have "registry static_init ''ding_dong'' = Some ding_dong_raw"
    unfolding registry_static_init by simp
  ultimately show ?thesis
    unfolding frame by simp
qed

subsection \<open>Not found is a returned null pointer\<close>

text \<open>
  Claim C4. The call returns the null pointer exactly when the name is not the key, and
  for no name and no memory is its outcome a failure: neither an exception nor an abort.
\<close>

theorem absent_only_by_nullptr:
  "(fst (get_sound name mem) = Inr nullptr) = (name \<noteq> ''ding_dong'')
    \<and> (\<forall>e. fst (get_sound name mem) \<noteq> Inl e)"
  by (simp add: get_sound_def)

subsection \<open>Purity\<close>

text \<open>
  Claim C5. The outcome of a call is determined by the name alone: two calls with the
  same name have the same outcome in whatever memories they start. A call hands the
  memory back unchanged. In a run of calls each outcome is that of the single call with
  the same name, so that it does not depend on the calls before it.
\<close>

theorem get_sound_pure:
  "fst (get_sound name mem1) = fst (get_sound name mem2)
    \<and> snd (get_sound name mem) = mem
    \<and> fst (lookups names mem1) = map (\<lambda>name. fst (get_sound name mem2)) names"
  using get_sound_outcome [of name mem1 mem2] get_sound_memory [of name mem]
    lookups_outcomes [of names mem1 mem2]
  by simp

subsection \<open>Repeated lookups\<close>

text \<open>
  Claim C6. Two calls with the name \<open>ding_dong\<close>, the first after any lookups and the
  second after any further lookups, return the same pointer, and the bytes read through
  it after the first call equal those read after the second: the bytes of the
  initialiser.
\<close>

theorem repeated_lookup_same_bytes:
  assumes first: "get_sound ''ding_dong'' (snd (lookups before static_init)) = (r1, mem1)"
    and second: "get_sound ''ding_dong'' (snd (lookups between mem1)) = (r2, mem2)"
  shows "r1 = r2 \<and> observed mem1 r1 = observed mem2 r2
    \<and> observed mem1 r1 = Some ding_dong_raw"
proof -
  from first have one: "r1 = Inr (address_of ding_dong_raw_object)" "mem1 = static_init"
    by (simp_all add: lookups_memory get_sound_def)
  from second have two: "r2 = Inr (address_of ding_dong_raw_object)" "mem2 = mem1"
    by (simp_all add: lookups_memory get_sound_def)
  from one two load_static_init show ?thesis
    by simp
qed

theorem repeated_lookup_same_bytes_witness:
  "get_sound ''ding_dong'' (snd (lookups [''bell''] static_init))
      = (Inr (address_of ding_dong_raw_object), static_init)
    \<and> get_sound ''ding_dong'' (snd (lookups [''ding'', ''ding_dong''] static_init))
      = (Inr (address_of ding_dong_raw_object), static_init)
    \<and> observed static_init (Inr (address_of ding_dong_raw_object))
      = Some [0x00, 0x00, 0x00, 0x00]"
proof -
  have first: "get_sound ''ding_dong'' (snd (lookups [''bell''] static_init))
      = (Inr (address_of ding_dong_raw_object), static_init)"
    by (simp add: get_sound_def)
  have second: "get_sound ''ding_dong'' (snd (lookups [''ding'', ''ding_dong''] static_init))
      = (Inr (address_of ding_dong_raw_object), static_init)"
    by (simp add: get_sound_def)
  from repeated_lookup_same_bytes [OF first second] first second show ?thesis
    by (simp add: ding_dong_raw_def)
qed

subsection \<open>Totality\<close>

text \<open>
  Claim C7. For every string, of any length and content, and in every memory, the call
  returns a pointer. A run of calls over any list of names gives one outcome for each
  name, and none of them is a failure.
\<close>

theorem get_sound_total:
  "(\<exists>p. get_sound name mem = (Inr p, mem))
    \<and> length (fst (lookups names mem)) = length names
    \<and> list_all (\<lambda>r. \<not> isl r) (fst (lookups names mem))"
proof -
  have each: "\<not> isl (fst (get_sound name mem))" for name
    by (simp add: get_sound_def)
  have "fst (lookups names mem) = map (\<lambda>name. fst (get_sound name mem)) names"
    by (rule lookups_outcomes)
  with each get_sound_returns [of name mem] show ?thesis
    by (simp add: list_all_iff)
qed

subsection \<open>The two results\<close>

text \<open>
  Claim C9. For every string the call returns one of two values: the null pointer or the
  address of the object \<open>ding_dong_raw\<close>. It never returns the address of an object
  constructed at run time, and it constructs none: the memory after the call is the
  memory before it. So every pointer a run of calls returns that is not null is the
  address of that one object.
\<close>

theorem get_sound_two_values:
  "(fst (get_sound name mem) = Inr nullptr
      \<or> fst (get_sound name mem) = Inr (address_of ding_dong_raw_object))
    \<and> fst (get_sound name mem) \<noteq> Inr (address_of (constructed n))
    \<and> snd (get_sound name mem) = mem
    \<and> set (fst (lookups names mem))
      \<subseteq> {Inr nullptr, Inr (address_of ding_dong_raw_object)}"
proof -
  have each: "fst (get_sound name mem) = Inr nullptr
      \<or> fst (get_sound name mem) = Inr (address_of ding_dong_raw_object)" for name
    by (simp add: get_sound_def)
  have "fst (lookups names mem) = map (\<lambda>name. fst (get_sound name mem)) names"
    by (rule lookups_outcomes)
  then have "set (fst (lookups names mem))
      \<subseteq> {Inr nullptr, Inr (address_of ding_dong_raw_object)}"
    using each by auto
  moreover have "fst (get_sound name mem) \<noteq> Inr (address_of (constructed n))"
    using each [of name] by auto
  ultimately show ?thesis
    using each [of name] get_sound_memory [of name mem] by simp
qed

subsection \<open>Only equality with the key matters\<close>

text \<open>
  Claim C10. Two names that agree on being equal to \<open>ding_dong\<close> or not have the same
  outcome, in whatever memories the two calls start; the outcome is the null pointer
  exactly when the name is not the key. In particular two names that both differ from
  the key have the same outcome, the null pointer, whatever their length and content.
\<close>

theorem get_sound_key_only:
  assumes "(name1 = ''ding_dong'') = (name2 = ''ding_dong'')"
  shows "fst (get_sound name1 mem1) = fst (get_sound name2 mem2)
    \<and> (fst (get_sound name1 mem1) = Inr nullptr) = (name1 \<noteq> ''ding_dong'')"
  using assms by (simp add: get_sound_def)

theorem get_sound_key_only_witness:
  "fst (get_sound '''' static_init) = fst (get_sound ''ding_dong_ding_dong'' Map.empty)
    \<and> fst (get_sound '''' static_init) = Inr nullptr"
proof -
  have agree: "('''' = ''ding_dong'') = (''ding_dong_ding_dong'' = ''ding_dong'')"
    by simp
  have differs: "'''' \<noteq> ''ding_dong''"
    by simp
  note both = get_sound_key_only [OF agree, of static_init Map.empty]
  from both have same: "fst (get_sound '''' static_init)
      = fst (get_sound ''ding_dong_ding_dong'' Map.empty)"
    by (rule conjunct1)
  from both have "(fst (get_sound '''' static_init) = Inr nullptr) = ('''' \<noteq> ''ding_dong'')"
    by (rule conjunct2)
  from this differs have "fst (get_sound '''' static_init) = Inr nullptr"
    by (rule iffD2)
  with same show ?thesis
    by (rule conjI)
qed

end
